theory Spec2Isabelle
  imports Complex_Main
begin

section \<open>Numbers\<close>

text \<open>
  The program computes on Python and numpy floating-point numbers (IEEE 754 doubles).
  A finite float is modelled by the real number it denotes, with one zero. The three
  values that no real number denotes are kept, because pandas produces them (a missing
  cell is \<open>NaN\<close>, a division by zero is an infinity or \<open>NaN\<close>) and never raises on them.
  The operators \<open>+\<close>, \<open>-\<close>, \<open>*\<close> and \<open>/\<close> of \<open>pyfloat\<close> give the exact result of an
  operation; the rounding of a result to a double is a step of its own (\<open>fl\<close>, below),
  made after every operation of \<open>pct_change\<close> and of the growth rate. The sums of
  \<open>calculate_gdp\<close> and the means are left unrounded.
\<close>

datatype pyfloat = Fin real | PInf | NInf | NaN

fun fl_neg :: "pyfloat \<Rightarrow> pyfloat" where
  "fl_neg (Fin a) = Fin (- a)"
| "fl_neg PInf = NInf"
| "fl_neg NInf = PInf"
| "fl_neg NaN = NaN"

instantiation pyfloat :: plus
begin

fun plus_pyfloat :: "pyfloat \<Rightarrow> pyfloat \<Rightarrow> pyfloat" where
  "plus_pyfloat NaN _ = NaN"
| "plus_pyfloat _ NaN = NaN"
| "plus_pyfloat (Fin a) (Fin b) = Fin (a + b)"
| "plus_pyfloat PInf NInf = NaN"
| "plus_pyfloat NInf PInf = NaN"
| "plus_pyfloat PInf _ = PInf"
| "plus_pyfloat _ PInf = PInf"
| "plus_pyfloat NInf _ = NInf"
| "plus_pyfloat _ NInf = NInf"

instance ..

end

instantiation pyfloat :: minus
begin

definition minus_pyfloat :: "pyfloat \<Rightarrow> pyfloat \<Rightarrow> pyfloat" where
  "minus_pyfloat a b = a + fl_neg b"

instance ..

end

instantiation pyfloat :: times
begin

fun times_pyfloat :: "pyfloat \<Rightarrow> pyfloat \<Rightarrow> pyfloat" where
  "times_pyfloat NaN _ = NaN"
| "times_pyfloat _ NaN = NaN"
| "times_pyfloat (Fin a) (Fin b) = Fin (a * b)"
| "times_pyfloat PInf (Fin b) = (if 0 < b then PInf else if b < 0 then NInf else NaN)"
| "times_pyfloat NInf (Fin b) = (if 0 < b then NInf else if b < 0 then PInf else NaN)"
| "times_pyfloat (Fin a) PInf = (if 0 < a then PInf else if a < 0 then NInf else NaN)"
| "times_pyfloat (Fin a) NInf = (if 0 < a then NInf else if a < 0 then PInf else NaN)"
| "times_pyfloat PInf PInf = PInf"
| "times_pyfloat NInf NInf = PInf"
| "times_pyfloat PInf NInf = NInf"
| "times_pyfloat NInf PInf = NInf"

instance ..

end

instantiation pyfloat :: inverse
begin

text \<open>
  Division of float arrays: a zero divisor gives an infinity of the dividend's sign, or
  \<open>NaN\<close> for \<open>0 / 0\<close>; nothing is raised.
\<close>

fun divide_pyfloat :: "pyfloat \<Rightarrow> pyfloat \<Rightarrow> pyfloat" where
  "divide_pyfloat NaN _ = NaN"
| "divide_pyfloat _ NaN = NaN"
| "divide_pyfloat (Fin a) (Fin b) =
     (if b \<noteq> 0 then Fin (a / b)
      else if 0 < a then PInf else if a < 0 then NInf else NaN)"
| "divide_pyfloat (Fin a) PInf = Fin 0"
| "divide_pyfloat (Fin a) NInf = Fin 0"
| "divide_pyfloat PInf (Fin b) = (if 0 \<le> b then PInf else NInf)"
| "divide_pyfloat NInf (Fin b) = (if 0 \<le> b then NInf else PInf)"
| "divide_pyfloat _ _ = NaN"

definition inverse_pyfloat :: "pyfloat \<Rightarrow> pyfloat" where
  "inverse_pyfloat a = divide (Fin 1) a"

instance ..

end

text \<open>The comparison \<open><\<close> of floats: false as soon as one side is \<open>NaN\<close>.\<close>

fun fl_less :: "pyfloat \<Rightarrow> pyfloat \<Rightarrow> bool" where
  "fl_less NaN _ = False"
| "fl_less _ NaN = False"
| "fl_less (Fin a) (Fin b) = (a < b)"
| "fl_less NInf NInf = False"
| "fl_less NInf _ = True"
| "fl_less _ NInf = False"
| "fl_less PInf _ = False"
| "fl_less _ PInf = True"

section \<open>Rounding to a double\<close>

text \<open>
  The operators above give the exact result. A double holds 53 significant bits, and
  every operation of the source on doubles rounds its exact result to the nearest
  double, a tie going to the one whose last bit is even. \<open>ilog2\<close> is the binary
  exponent of a positive number, \<open>pow2\<close> a power of two, \<open>rne\<close> the nearest integer with
  ties to even. \<open>double\<close> rounds a real: below \<open>2 ^ -1022\<close> the spacing stays
  \<open>2 ^ -1074\<close> (gradual underflow), and a result of magnitude \<open>2 ^ 1024\<close> or more is an
  infinity. \<open>fl\<close> rounds a float and leaves the infinities and \<open>NaN\<close> as they are.
\<close>

function ilog2 :: "real \<Rightarrow> int" where
  "ilog2 x = (if 2 \<le> x then ilog2 (x / 2) + 1
              else if 0 < x \<and> x < 1 then ilog2 (2 * x) - 1
              else 0)"
  by pat_completeness auto
termination
proof (relation "measure (\<lambda>x. if 1 \<le> x then nat \<lfloor>x\<rfloor> else nat \<lceil>1 / x\<rceil>)")
  show "wf (measure (\<lambda>x::real. if 1 \<le> x then nat \<lfloor>x\<rfloor> else nat \<lceil>1 / x\<rceil>))" by simp
next
  fix x :: real
  assume "2 \<le> x"
  then have "\<lfloor>x / 2\<rfloor> \<le> \<lfloor>x - 1\<rfloor>" by (intro floor_mono) simp
  moreover have "\<lfloor>x - 1\<rfloor> = \<lfloor>x\<rfloor> - 1" by simp
  moreover have "1 \<le> \<lfloor>x\<rfloor>" using \<open>2 \<le> x\<close> by (simp add: le_floor_iff)
  ultimately show "(x / 2, x) \<in> measure (\<lambda>x. if 1 \<le> x then nat \<lfloor>x\<rfloor> else nat \<lceil>1 / x\<rceil>)"
    using \<open>2 \<le> x\<close> by simp
next
  fix x :: real
  assume a: "\<not> 2 \<le> x" "0 < x \<and> x < 1"
  show "(2 * x, x) \<in> measure (\<lambda>x. if 1 \<le> x then nat \<lfloor>x\<rfloor> else nat \<lceil>1 / x\<rceil>)"
  proof (cases "1 \<le> 2 * x")
    case True
    have "\<lfloor>2 * x\<rfloor> = 1" using True a by (simp add: floor_eq_iff)
    moreover have "1 < 1 / x" using a by simp
    then have "2 \<le> \<lceil>1 / x\<rceil>" by (simp add: le_ceiling_iff)
    ultimately show ?thesis using True a by simp
  next
    case False
    then have x: "x < 1 / 2" "0 < x" using a by auto
    then have y: "2 < 1 / x" by (simp add: field_simps)
    have c1: "of_int \<lceil>1 / (2 * x)\<rceil> < 1 / (2 * x) + 1"
      using ceiling_correct [of "1 / (2 * x)"] by linarith
    have c2: "1 / x \<le> of_int \<lceil>1 / x\<rceil>" by (rule le_of_int_ceiling)
    have "1 / (2 * x) = (1 / x) / 2" by simp
    with c1 c2 y have "(of_int \<lceil>1 / (2 * x)\<rceil> :: real) < of_int \<lceil>1 / x\<rceil>" by linarith
    then have lt: "\<lceil>1 / (2 * x)\<rceil> < \<lceil>1 / x\<rceil>" by simp
    have "0 < \<lceil>1 / x\<rceil>" using x by (simp add: less_ceiling_iff)
    with lt show ?thesis using False a by simp
  qed
qed

declare ilog2.simps [simp del]

definition pow2 :: "int \<Rightarrow> real" where
  "pow2 e = (if 0 \<le> e then 2 ^ nat e else 1 / 2 ^ nat (- e))"

definition rne :: "real \<Rightarrow> int" where
  "rne q = (let f = \<lfloor>q\<rfloor>; d = q - of_int f
            in if d < 1 / 2 then f else if 1 / 2 < d then f + 1
               else if even f then f else f + 1)"

definition double :: "real \<Rightarrow> pyfloat" where
  "double x =
     (if x = 0 then Fin 0
      else let e = max (ilog2 \<bar>x\<bar>) (- 1022);
               ulp = pow2 (e - 52);
               y = of_int (rne (x / ulp)) * ulp
           in if 2 ^ 1024 \<le> \<bar>y\<bar> then (if 0 < x then PInf else NInf) else Fin y)"

fun fl :: "pyfloat \<Rightarrow> pyfloat" where
  "fl (Fin x) = double x"
| "fl v = v"

section \<open>pandas Series\<close>

text \<open>
  A \<open>Series\<close> of floats on the default index \<open>0, 1, ..., n - 1\<close>. A binary operator
  between two Series first aligns them on the union of their indexes, filling the
  positions one of them lacks with \<open>NaN\<close>, then works cell by cell. Mismatched lengths
  are therefore no error.
\<close>

datatype series = Series (cells: "pyfloat list")

fun align_op :: "(pyfloat \<Rightarrow> pyfloat \<Rightarrow> pyfloat) \<Rightarrow> pyfloat list \<Rightarrow> pyfloat list \<Rightarrow> pyfloat list" where
  "align_op f [] [] = []"
| "align_op f (x # xs) [] = f x NaN # align_op f xs []"
| "align_op f [] (y # ys) = f NaN y # align_op f [] ys"
| "align_op f (x # xs) (y # ys) = f x y # align_op f xs ys"

instantiation series :: plus
begin

definition plus_series :: "series \<Rightarrow> series \<Rightarrow> series" where
  "plus_series a b = Series (align_op (+) (cells a) (cells b))"

instance ..

end

instantiation series :: minus
begin

definition minus_series :: "series \<Rightarrow> series \<Rightarrow> series" where
  "minus_series a b = Series (align_op (-) (cells a) (cells b))"

instance ..

end

text \<open>
  The cell of a Series at a label, as alignment sees it: \<open>NaN\<close> where the Series has
  no such label.
\<close>

definition cell_at :: "pyfloat list \<Rightarrow> nat \<Rightarrow> pyfloat" where
  "cell_at xs k = (if k < length xs then xs ! k else NaN)"

section \<open>The table and the calculator's state\<close>

text \<open>
  One row of the \<open>DataFrame\<close> that \<open>generate_sample_data\<close> stores in \<open>self.data\<close>: the
  year, the five indicators and the two derived columns. The cells of a table are
  finite numbers. A table is the list of its rows in index order, so all columns have
  the same length, as in pandas.
\<close>

record period =
  Year :: int
  Consumption :: real
  Investment :: real
  Government_Spending :: real
  Exports :: real
  Imports :: real
  GDP :: real
  Net_Exports :: real

type_synonym dataframe = "period list"

text \<open>The fields that \<open>__init__\<close> sets; both start as \<open>None\<close>.\<close>

record GDPModel =
  data :: "dataframe option"
  gdp_values :: "series option"

definition init :: GDPModel where
  "init = \<lparr>data = None, gdp_values = None\<rparr>"

text \<open>
  What a figure shows, as far as it depends on the table: the points handed to
  matplotlib. Styling, titles and labels are left out.
\<close>

datatype chart =
  Trend "(int \<times> real) list"
| Components "(int \<times> real \<times> real \<times> real \<times> real) list"
| Growth "(int \<times> pyfloat) list"
| All_trends dataframe

text \<open>
  What a method does to the outside: image files written, windows shown, lines printed.
  A printed number is kept as the number, not as the digits its format shows.
  \<open>Print_saved\<close> is the line that names the saved file, \<open>Print_header\<close> the banner of
  the summary, \<open>Print_table\<close> the yearly table with its rules.
\<close>

datatype effect =
  Savefig string chart
| Print_saved string
| Show
| Print_header
| Print_period pyfloat pyfloat
| Print_mean_gdp pyfloat
| Print_max_gdp pyfloat int
| Print_min_gdp pyfloat int
| Print_mean_growth pyfloat
| Print_max_growth pyfloat int
| Print_table dataframe

text \<open>
  Everything a method can read or change: the calculator object, the state of numpy's
  global random generator (of a type \<open>'r\<close> left open), and the effects so far, oldest
  first.
\<close>

record 'r world =
  model :: GDPModel
  rng :: 'r
  effects :: "effect list"

definition emit :: "effect list \<Rightarrow> 'r world \<Rightarrow> 'r world" where
  "emit es w = w\<lparr>effects := effects w @ es\<rparr>"

text \<open>
  The exceptions that can leave a method: the \<open>ValueError\<close> of the methods' own guard,
  the \<open>ValueError\<close> pandas raises for \<open>idxmax\<close> or \<open>idxmin\<close> of an empty Series, and the
  failure of \<open>idxmax\<close> on a Series whose cells are all \<open>NaN\<close> (a \<open>ValueError\<close>, or the
  \<open>KeyError\<close> of the lookup that follows, depending on the pandas version).
\<close>

datatype pyerror = ValueError_no_data | ValueError_empty_sequence | Error_all_nan

section \<open>calculate\_gdp\<close>

text \<open>
  The method takes \<open>self\<close> and never touches it. The operands are of any type with
  \<open>+\<close> and \<open>-\<close>: Python numbers (\<open>int\<close>, \<open>real\<close>, \<open>pyfloat\<close>) or \<open>series\<close>.
\<close>

definition calculate_gdp :: "'r world \<Rightarrow> 'a::{plus,minus} \<Rightarrow> 'a \<Rightarrow> 'a \<Rightarrow> 'a \<Rightarrow> 'a \<Rightarrow> 'a \<times> 'r world" where
  "calculate_gdp w consumption investment government_spending exports imports =
     (let net_exports = exports - imports;
          gdp = consumption + investment + government_spending + net_exports
      in (gdp, w))"

section \<open>generate\_sample\_data\<close>

text \<open>
  numpy's generator is not part of the repository: \<open>seed\<close> (\<open>np.random.seed\<close>) and
  \<open>normal\<close> (\<open>np.random.normal\<close>, which returns a draw and the generator's next state)
  are parameters. One list comprehension of the source draws once per index, in index
  order.
\<close>

fun noisy_column :: "(real \<Rightarrow> real \<Rightarrow> 'r \<Rightarrow> real \<times> 'r) \<Rightarrow> real \<Rightarrow> real \<Rightarrow> real \<Rightarrow> int list \<Rightarrow> 'r \<Rightarrow> real list \<times> 'r" where
  "noisy_column normal base slope scale [] r = ([], r)"
| "noisy_column normal base slope scale (i # is) r =
     (let (z, r') = normal 0 scale r;
          (rest, r'') = noisy_column normal base slope scale is r'
      in ((base + of_int i * slope + z) # rest, r''))"

text \<open>
  The source calls \<open>calculate_gdp\<close> once, on five columns of the frame, and subtracts
  two columns for \<open>Net_Exports\<close>. Columns of one frame have the same index, so pandas
  applies the operators row by row; the model makes the call for each row. The frame
  is stored in \<open>self.data\<close> and returned.
\<close>

definition generate_sample_data :: "(nat \<Rightarrow> 'r) \<Rightarrow> (real \<Rightarrow> real \<Rightarrow> 'r \<Rightarrow> real \<times> 'r) \<Rightarrow> 'r world \<Rightarrow> int \<Rightarrow> int \<Rightarrow> dataframe \<times> 'r world" where
  "generate_sample_data seed normal w years start_year =
     (let r0 = seed 42;
          years_list = [start_year .. start_year + years - 1];
          base_consumption = 5000;
          base_investment = 1500;
          base_gov_spending = 2000;
          base_exports = 1800;
          base_imports = 1600;
          (consumption, r1) = noisy_column normal base_consumption 200 100 [0 .. years - 1] r0;
          (investment, r2) = noisy_column normal base_investment 80 50 [0 .. years - 1] r1;
          (government_spending, r3) = noisy_column normal base_gov_spending 100 60 [0 .. years - 1] r2;
          (exports, r4) = noisy_column normal base_exports 90 70 [0 .. years - 1] r3;
          (imports, r5) = noisy_column normal base_imports 85 65 [0 .. years - 1] r4;
          w1 = w\<lparr>rng := r5\<rparr>;
          df = map (\<lambda>k.
                 \<lparr>Year = years_list ! k,
                  Consumption = consumption ! k,
                  Investment = investment ! k,
                  Government_Spending = government_spending ! k,
                  Exports = exports ! k,
                  Imports = imports ! k,
                  GDP = fst (calculate_gdp w1 (consumption ! k) (investment ! k)
                               (government_spending ! k) (exports ! k) (imports ! k)),
                  Net_Exports = exports ! k - imports ! k\<rparr>)
               [0 ..< length years_list]
      in (df, w1\<lparr>model := (model w1)\<lparr>data := Some df\<rparr>\<rparr>))"

section \<open>Statistics of a column\<close>

text \<open>
  \<open>mean\<close>, \<open>max\<close> and \<open>min\<close> of a column of finite cells; pandas returns \<open>NaN\<close> for an
  empty column.
\<close>

definition series_mean :: "real list \<Rightarrow> pyfloat" where
  "series_mean xs = (if xs = [] then NaN else Fin (sum_list xs / real (length xs)))"

definition series_max :: "real list \<Rightarrow> pyfloat" where
  "series_max xs = (if xs = [] then NaN else Fin (Max (set xs)))"

definition series_min :: "real list \<Rightarrow> pyfloat" where
  "series_min xs = (if xs = [] then NaN else Fin (Min (set xs)))"

definition year_min :: "int list \<Rightarrow> pyfloat" where
  "year_min ys = (if ys = [] then NaN else Fin (of_int (Min (set ys))))"

definition year_max :: "int list \<Rightarrow> pyfloat" where
  "year_max ys = (if ys = [] then NaN else Fin (of_int (Max (set ys))))"

text \<open>
  \<open>idxmax\<close> and \<open>idxmin\<close> scan the column from the left and keep the position of the
  best cell so far, replacing it only by a strictly better one. On the default index a
  position is its own label. An empty column raises.
\<close>

fun first_best :: "('a \<Rightarrow> 'a \<Rightarrow> bool) \<Rightarrow> 'a list \<Rightarrow> nat \<Rightarrow> nat \<Rightarrow> 'a \<Rightarrow> nat" where
  "first_best better [] i bi b = bi"
| "first_best better (x # xs) i bi b =
     (if better x b then first_best better xs (Suc i) i x
      else first_best better xs (Suc i) bi b)"

definition idxmax :: "real list \<Rightarrow> pyerror + nat" where
  "idxmax xs = (case xs of [] \<Rightarrow> Inl ValueError_empty_sequence
                | x # rest \<Rightarrow> Inr (first_best (\<lambda>v b. b < v) rest 1 0 x))"

definition idxmin :: "real list \<Rightarrow> pyerror + nat" where
  "idxmin xs = (case xs of [] \<Rightarrow> Inl ValueError_empty_sequence
                | x # rest \<Rightarrow> Inr (first_best (\<lambda>v b. v < b) rest 1 0 x))"

section \<open>Growth rates\<close>

text \<open>
  \<open>pct_change\<close> divides each cell by the one before it and subtracts one; the first
  cell has none before it and becomes \<open>NaN\<close>. Both operations are operations on doubles:
  the quotient is rounded, then the difference. \<open>growth_rate\<close> multiplies by 100, and
  rounds again.
\<close>

fun pct_change_from :: "real \<Rightarrow> real list \<Rightarrow> pyfloat list" where
  "pct_change_from prev [] = []"
| "pct_change_from prev (x # xs) =
     fl (fl (Fin x / Fin prev) - Fin 1) # pct_change_from x xs"

definition pct_change :: "real list \<Rightarrow> pyfloat list" where
  "pct_change xs = (case xs of [] \<Rightarrow> [] | x # rest \<Rightarrow> NaN # pct_change_from x rest)"

definition growth_rate :: "dataframe \<Rightarrow> pyfloat list" where
  "growth_rate df = map (\<lambda>r. fl (r * Fin 100)) (pct_change (map GDP df))"

text \<open>
  The growth rate of a period as the specification words it, from the GDP of the period
  before and the GDP of the period, computed exactly.
\<close>

definition growth_formula :: "real \<Rightarrow> real \<Rightarrow> pyfloat" where
  "growth_formula prev cur = (Fin cur - Fin prev) / Fin prev * Fin 100"

text \<open>
  The aggregates of a float column, as pandas documents them, skip \<open>NaN\<close> cells.
  \<open>nan_mean\<close> and \<open>nan_max\<close> return \<open>NaN\<close> when no cell is left. \<open>nan_idxmax\<close> returns the position of the first cell that
  holds the maximum of the cells that are not \<open>NaN\<close>; it fails on an empty column and on
  a column of \<open>NaN\<close> only.
\<close>

definition nan_mean :: "pyfloat list \<Rightarrow> pyfloat" where
  "nan_mean xs =
     (let vs = filter (\<lambda>v. v \<noteq> NaN) xs
      in if vs = [] then NaN else foldr (+) vs (Fin 0) / Fin (real (length vs)))"

fun nan_max_from :: "pyfloat list \<Rightarrow> pyfloat \<Rightarrow> pyfloat" where
  "nan_max_from [] b = b"
| "nan_max_from (x # xs) b =
     nan_max_from xs (if x = NaN then b else if b = NaN then x
                      else if fl_less b x then x else b)"

definition nan_max :: "pyfloat list \<Rightarrow> pyfloat" where
  "nan_max xs = nan_max_from xs NaN"

fun skipna_argmax :: "pyfloat list \<Rightarrow> nat \<Rightarrow> (nat \<times> pyfloat) option \<Rightarrow> (nat \<times> pyfloat) option" where
  "skipna_argmax [] i best = best"
| "skipna_argmax (x # xs) i best =
     skipna_argmax xs (Suc i)
       (if x = NaN then best
        else case best of
               None \<Rightarrow> Some (i, x)
             | Some (bi, b) \<Rightarrow> if fl_less b x then Some (i, x) else best)"

definition nan_idxmax :: "pyfloat list \<Rightarrow> pyerror + nat" where
  "nan_idxmax xs =
     (if xs = [] then Inl ValueError_empty_sequence
      else case skipna_argmax xs 0 None of
             None \<Rightarrow> Inl Error_all_nan
           | Some (k, v) \<Rightarrow> Inr k)"

section \<open>The plotting methods\<close>

text \<open>
  Each plotting method raises when \<open>self.data\<close> is \<open>None\<close>, before it does anything
  else. Otherwise it draws, saves the figure under \<open>save_path\<close>, prints the line that
  names the file and shows the figure. Drawing and saving are calls into matplotlib,
  taken to succeed.
\<close>

definition plot_gdp_trend :: "'r world \<Rightarrow> string \<Rightarrow> (pyerror + unit) \<times> 'r world" where
  "plot_gdp_trend w save_path =
     (case data (model w) of
        None \<Rightarrow> (Inl ValueError_no_data, w)
      | Some df \<Rightarrow>
          (Inr (), emit [Savefig save_path (Trend (map (\<lambda>r. (Year r, GDP r)) df)),
                         Print_saved save_path, Show] w))"

definition plot_gdp_components :: "'r world \<Rightarrow> string \<Rightarrow> (pyerror + unit) \<times> 'r world" where
  "plot_gdp_components w save_path =
     (case data (model w) of
        None \<Rightarrow> (Inl ValueError_no_data, w)
      | Some df \<Rightarrow>
          (Inr (), emit [Savefig save_path
                           (Components (map (\<lambda>r. (Year r, Consumption r, Investment r,
                                                   Government_Spending r, Net_Exports r)) df)),
                         Print_saved save_path, Show] w))"

definition plot_growth_rate :: "'r world \<Rightarrow> string \<Rightarrow> (pyerror + unit) \<times> 'r world" where
  "plot_growth_rate w save_path =
     (case data (model w) of
        None \<Rightarrow> (Inl ValueError_no_data, w)
      | Some df \<Rightarrow>
          (let growth = growth_rate df
           in (Inr (), emit [Savefig save_path
                               (Growth (zip (drop 1 (map Year df)) (drop 1 growth))),
                             Print_saved save_path, Show] w)))"

definition plot_all_components_trends :: "'r world \<Rightarrow> string \<Rightarrow> (pyerror + unit) \<times> 'r world" where
  "plot_all_components_trends w save_path =
     (case data (model w) of
        None \<Rightarrow> (Inl ValueError_no_data, w)
      | Some df \<Rightarrow>
          (Inr (), emit [Savefig save_path (All_trends df), Print_saved save_path, Show] w))"

section \<open>print\_summary\<close>

text \<open>
  The lines are printed one after the other, so an exception raised while a line is
  being formatted leaves the lines before it printed. \<open>growth_rate[1:]\<close> keeps the
  labels of the frame: the cell at position \<open>k\<close> of the slice belongs to row \<open>k + 1\<close>.
\<close>

definition print_summary :: "'r world \<Rightarrow> (pyerror + unit) \<times> 'r world" where
  "print_summary w =
     (case data (model w) of
        None \<Rightarrow> (Inl ValueError_no_data, w)
      | Some df \<Rightarrow>
          (let years = map Year df;
               gdp = map GDP df;
               w1 = emit [Print_header,
                          Print_period (year_min years) (year_max years),
                          Print_mean_gdp (series_mean gdp)] w
           in case idxmax gdp of
                Inl e \<Rightarrow> (Inl e, w1)
              | Inr imax \<Rightarrow>
                  (let w2 = emit [Print_max_gdp (series_max gdp) (years ! imax)] w1
                   in case idxmin gdp of
                        Inl e \<Rightarrow> (Inl e, w2)
                      | Inr imin \<Rightarrow>
                          (let w3 = emit [Print_min_gdp (series_min gdp) (years ! imin)] w2;
                               growth = drop 1 (growth_rate df);
                               w4 = emit [Print_mean_growth (nan_mean growth)] w3
                           in case nan_idxmax growth of
                                Inl e \<Rightarrow> (Inl e, w4)
                              | Inr k \<Rightarrow>
                                  (Inr (), emit [Print_max_growth (nan_max growth) (years ! Suc k),
                                                 Print_table df] w4)))))"

section \<open>Series arithmetic\<close>

lemma length_align_op: "length (align_op f xs ys) = max (length xs) (length ys)"
  by (induction f xs ys rule: align_op.induct) auto

lemma nth_align_op:
  "k < max (length xs) (length ys) \<Longrightarrow>
   align_op f xs ys ! k = f (cell_at xs k) (cell_at ys k)"
proof (induction f xs ys arbitrary: k rule: align_op.induct)
  case (1 f)
  then show ?case by simp
next
  case (2 f x xs)
  then show ?case by (cases k) (auto simp: cell_at_def)
next
  case (3 f y ys)
  then show ?case by (cases k) (auto simp: cell_at_def)
next
  case (4 f x xs y ys)
  then show ?case by (cases k) (auto simp: cell_at_def)
qed

lemma cells_calculate_gdp:
  "cells (fst (calculate_gdp w (Series cs) (Series js) (Series gs) (Series xs) (Series ms))) =
   align_op (+) (align_op (+) (align_op (+) cs js) gs) (align_op (-) xs ms)"
  by (simp add: calculate_gdp_def plus_series_def minus_series_def)

lemma nan_plus: "NaN + (a::pyfloat) = NaN" "a + NaN = NaN"
  by (cases a; simp)+

lemma nan_minus: "NaN - (a::pyfloat) = NaN" "a - NaN = NaN"
  by (cases a; simp add: minus_pyfloat_def)+

section \<open>Properties of calculate\_gdp\<close>

text \<open>
  C1. For operands of any one type with \<open>+\<close> and \<open>-\<close>, \<open>calculate_gdp\<close> returns
  \<open>c + i + g + (x - m)\<close> and nothing else. For five Series of one length \<open>n\<close> the result
  has length \<open>n\<close> and its cell at each position is that expression of the operands'
  cells at the position. On the integers 5000, 1500, 2000, 1800, 1600 it returns 8700.
\<close>

theorem calculate_gdp_formula:
  "fst (calculate_gdp w c i g x m) = c + i + g + (x - m)
   \<and> (length cs = n \<and> length js = n \<and> length gs = n \<and> length xs = n \<and> length ms = n \<longrightarrow>
        length (cells (fst (calculate_gdp w (Series cs) (Series js) (Series gs) (Series xs) (Series ms)))) = n
        \<and> (\<forall>k<n. cells (fst (calculate_gdp w (Series cs) (Series js) (Series gs) (Series xs) (Series ms))) ! k
                  = cs ! k + js ! k + gs ! k + (xs ! k - ms ! k)))
   \<and> fst (calculate_gdp w (5000::int) 1500 2000 1800 1600) = 8700"
proof (intro conjI impI)
  show "fst (calculate_gdp w c i g x m) = c + i + g + (x - m)"
    by (simp add: calculate_gdp_def)
next
  assume len: "length cs = n \<and> length js = n \<and> length gs = n \<and> length xs = n \<and> length ms = n"
  show "length (cells (fst (calculate_gdp w (Series cs) (Series js) (Series gs) (Series xs) (Series ms)))) = n"
    using len by (simp add: cells_calculate_gdp length_align_op)
  show "\<forall>k<n. cells (fst (calculate_gdp w (Series cs) (Series js) (Series gs) (Series xs) (Series ms))) ! k
                  = cs ! k + js ! k + gs ! k + (xs ! k - ms ! k)"
    using len by (simp add: cells_calculate_gdp length_align_op nth_align_op cell_at_def)
next
  show "fst (calculate_gdp w (5000::int) 1500 2000 1800 1600) = 8700"
    by (simp add: calculate_gdp_def)
qed

theorem calculate_gdp_formula_witness:
  "length (cells (fst (calculate_gdp \<lparr>model = init, rng = (), effects = []\<rparr>
      (Series [Fin 1, Fin 2]) (Series [Fin 3, Fin 4]) (Series [Fin 5, Fin 6])
      (Series [Fin 7, Fin 8]) (Series [Fin 2, Fin 10])))) = 2
   \<and> cells (fst (calculate_gdp \<lparr>model = init, rng = (), effects = []\<rparr>
      (Series [Fin 1, Fin 2]) (Series [Fin 3, Fin 4]) (Series [Fin 5, Fin 6])
      (Series [Fin 7, Fin 8]) (Series [Fin 2, Fin 10]))) ! 1 = Fin 10"
  using calculate_gdp_formula [of "\<lparr>model = init, rng = (), effects = []\<rparr>" "0::int" 0 0 0 0
      "[Fin 1, Fin 2]" 2 "[Fin 3, Fin 4]" "[Fin 5, Fin 6]" "[Fin 7, Fin 8]" "[Fin 2, Fin 10]"]
  by (simp add: minus_pyfloat_def)

text \<open>
  C7. Whatever the operands and the state before the call, \<open>calculate_gdp\<close> leaves the
  calculator object, the random generator and the effects as they were: no file is
  written and nothing is printed.
\<close>

theorem calculate_gdp_pure: "snd (calculate_gdp w c i g x m) = w"
  by (simp add: calculate_gdp_def)

lemma cell_at_align_op:
  "cell_at (align_op f xs ys) k =
   (if k < max (length xs) (length ys) then f (cell_at xs k) (cell_at ys k) else NaN)"
  by (simp add: cell_at_def length_align_op nth_align_op del: max_less_iff_conj)

text \<open>
  C4 (as the code has it). \<open>calculate_gdp\<close> checks no lengths and raises nothing. On
  five Series it returns the aligned result: as long as the longest operand, each cell
  the expression of the operands' cells at that label, and so \<open>NaN\<close> at every label that
  some operand lacks. On floats it returns \<open>NaN\<close> as soon as an operand is \<open>NaN\<close>; no
  value is rejected.
\<close>

theorem calculate_gdp_aligns:
  "length (cells (fst (calculate_gdp w (Series cs) (Series js) (Series gs) (Series xs) (Series ms))))
     = max (max (max (length cs) (length js)) (length gs)) (max (length xs) (length ms))
   \<and> (\<forall>k < max (max (max (length cs) (length js)) (length gs)) (max (length xs) (length ms)).
         cells (fst (calculate_gdp w (Series cs) (Series js) (Series gs) (Series xs) (Series ms))) ! k
           = cell_at cs k + cell_at js k + cell_at gs k + (cell_at xs k - cell_at ms k)
         \<and> ((length cs \<le> k \<or> length js \<le> k \<or> length gs \<le> k \<or> length xs \<le> k \<or> length ms \<le> k) \<longrightarrow>
            cells (fst (calculate_gdp w (Series cs) (Series js) (Series gs) (Series xs) (Series ms))) ! k = NaN))
   \<and> ((a = NaN \<or> b = NaN \<or> c = NaN \<or> d = NaN \<or> e = NaN) \<longrightarrow> fst (calculate_gdp w a b c d e) = NaN)"
proof (intro conjI allI impI)
  let ?r = "cells (fst (calculate_gdp w (Series cs) (Series js) (Series gs) (Series xs) (Series ms)))"
  let ?n = "max (max (max (length cs) (length js)) (length gs)) (max (length xs) (length ms))"
  show "length ?r = ?n"
    by (simp add: cells_calculate_gdp length_align_op)
  have cell: "?r ! k = cell_at cs k + cell_at js k + cell_at gs k + (cell_at xs k - cell_at ms k)"
    if "k < ?n" for k
  proof -
    have "?r ! k = cell_at (align_op (+) (align_op (+) cs js) gs) k + cell_at (align_op (-) xs ms) k"
      using that by (simp add: cells_calculate_gdp nth_align_op length_align_op del: max_less_iff_conj)
    also have "\<dots> = cell_at cs k + cell_at js k + cell_at gs k + (cell_at xs k - cell_at ms k)"
      by (simp add: cell_at_align_op length_align_op nan_plus nan_minus del: max_less_iff_conj)
         (auto simp: cell_at_def nan_plus nan_minus)
    finally show ?thesis .
  qed
  show "?r ! k = cell_at cs k + cell_at js k + cell_at gs k + (cell_at xs k - cell_at ms k)"
    if "k < ?n" for k using that by (rule cell)
  show "?r ! k = NaN"
    if "k < ?n" and "length cs \<le> k \<or> length js \<le> k \<or> length gs \<le> k \<or> length xs \<le> k \<or> length ms \<le> k" for k
    using that(2) by (auto simp: cell[OF that(1)] cell_at_def nan_plus nan_minus)
  show "fst (calculate_gdp w a b c d e) = NaN" if "a = NaN \<or> b = NaN \<or> c = NaN \<or> d = NaN \<or> e = NaN"
    using that by (auto simp: calculate_gdp_def nan_plus nan_minus)
qed

theorem calculate_gdp_aligns_witness:
  "cells (fst (calculate_gdp \<lparr>model = init, rng = (), effects = []\<rparr>
      (Series [Fin 1]) (Series [Fin 3, Fin 4]) (Series [Fin 5, Fin 6])
      (Series [Fin 7, Fin 8]) (Series [Fin 2, Fin 10]))) ! 1 = NaN
   \<and> fst (calculate_gdp \<lparr>model = init, rng = (), effects = []\<rparr> (Fin (- 1)) (Fin 0) NaN PInf (Fin 2)) = NaN"
  using calculate_gdp_aligns [of "\<lparr>model = init, rng = (), effects = []\<rparr>"
      "[Fin 1]" "[Fin 3, Fin 4]" "[Fin 5, Fin 6]" "[Fin 7, Fin 8]" "[Fin 2, Fin 10]"
      "Fin (- 1)" "Fin 0" NaN PInf "Fin 2"]
  by (simp add: cell_at_def nan_plus nan_minus)

text \<open>
  C4 as stated fails: with three Series of length 3 and two of length 5 the call
  returns a Series of length 5, \<open>NaN\<close> at the labels 3 and 4, and raises nothing.
\<close>

theorem calculate_gdp_mismatch_counterexample:
  "calculate_gdp \<lparr>model = init, rng = (), effects = []\<rparr>
      (Series [Fin 1, Fin 2, Fin 3]) (Series [Fin 1, Fin 2, Fin 3]) (Series [Fin 1, Fin 2, Fin 3])
      (Series [Fin 1, Fin 2, Fin 3, Fin 4, Fin 5]) (Series [Fin 1, Fin 2, Fin 3, Fin 4, Fin 5])
   = (Series [Fin 3, Fin 6, Fin 9, NaN, NaN], \<lparr>model = init, rng = (), effects = []\<rparr>)"
  by (simp add: calculate_gdp_def plus_series_def minus_series_def minus_pyfloat_def)

section \<open>Properties of generate\_sample\_data\<close>

text \<open>Every column has one cell per year, so each row reads its cells in range.\<close>

lemma length_noisy_column:
  "length (fst (noisy_column normal base slope scale js r)) = length js"
  by (induction js arbitrary: r) (simp_all add: Let_def split_beta)

text \<open>
  The one call of the source on five columns of a frame gives, row by row, what the
  call on the cells of that row gives: the model of \<open>generate_sample_data\<close> may make
  the call for each row.
\<close>

lemma calculate_gdp_on_columns:
  assumes "length cs = n" "length js = n" "length gs = n" "length xs = n" "length ms = n"
  shows "fst (calculate_gdp w (Series (map Fin cs)) (Series (map Fin js)) (Series (map Fin gs))
                (Series (map Fin xs)) (Series (map Fin ms)))
         = Series (map (\<lambda>k. Fin (fst (calculate_gdp w (cs ! k) (js ! k) (gs ! k) (xs ! k) (ms ! k))))
                     [0 ..< n])"
proof -
  let ?r = "fst (calculate_gdp w (Series (map Fin cs)) (Series (map Fin js)) (Series (map Fin gs))
                (Series (map Fin xs)) (Series (map Fin ms)))"
  have "cells ?r = map (\<lambda>k. Fin (fst (calculate_gdp w (cs ! k) (js ! k) (gs ! k) (xs ! k) (ms ! k))))
                     [0 ..< n]"
  proof (rule nth_equalityI)
    show "length (cells ?r) = length (map (\<lambda>k. Fin (fst (calculate_gdp w (cs ! k) (js ! k) (gs ! k) (xs ! k) (ms ! k)))) [0 ..< n])"
      using assms by (simp add: cells_calculate_gdp length_align_op)
    fix k assume "k < length (cells ?r)"
    then have k: "k < n" using assms by (simp add: cells_calculate_gdp length_align_op)
    then have "cells ?r ! k = Fin (cs ! k) + Fin (js ! k) + Fin (gs ! k) + (Fin (xs ! k) - Fin (ms ! k))"
      using assms by (simp add: cells_calculate_gdp length_align_op nth_align_op cell_at_def)
    also have "\<dots> = Fin (fst (calculate_gdp w (cs ! k) (js ! k) (gs ! k) (xs ! k) (ms ! k)))"
      by (simp add: calculate_gdp_def minus_pyfloat_def)
    finally show "cells ?r ! k = map (\<lambda>k. Fin (fst (calculate_gdp w (cs ! k) (js ! k) (gs ! k) (xs ! k) (ms ! k)))) [0 ..< n] ! k"
      using k by simp
  qed
  then show ?thesis by (cases ?r) simp
qed

text \<open>
  C2. Whatever \<open>years\<close> and \<open>start_year\<close> (and whatever the generator draws), the table
  that \<open>generate_sample_data\<close> returns has one row per year, and in every row GDP is
  Consumption + Investment + Government\_Spending + (Exports - Imports) and Net\_Exports
  is Exports - Imports. The cells are computed by these very expressions, so equality
  is exact.
\<close>

theorem generated_table_invariant:
  "length (fst (generate_sample_data seed normal w years start_year)) = nat years
   \<and> (\<forall>row \<in> set (fst (generate_sample_data seed normal w years start_year)).
         GDP row = Consumption row + Investment row + Government_Spending row
                     + (Exports row - Imports row)
         \<and> Net_Exports row = Exports row - Imports row)"
  by (auto simp: generate_sample_data_def calculate_gdp_def Let_def split: prod.splits)

theorem generated_table_invariant_witness:
  "\<exists>row \<in> set (fst (generate_sample_data (\<lambda>s. s) (\<lambda>loc scale r. (loc + scale * real r, Suc r))
                      \<lparr>model = init, rng = 0, effects = []\<rparr> 2 2015)).
      Year row = 2016 \<and>
      GDP row = Consumption row + Investment row + Government_Spending row
                     + (Exports row - Imports row)
         \<and> Net_Exports row = Exports row - Imports row"
proof -
  let ?df = "fst (generate_sample_data (\<lambda>s. s) (\<lambda>loc scale r. (loc + scale * real r, Suc r))
                      \<lparr>model = init, rng = 0::nat, effects = []\<rparr> 2 2015)"
  have len: "length ?df = 2"
    using generated_table_invariant [of "\<lambda>s. s" "\<lambda>loc scale r. (loc + scale * real r, Suc r)"
        "\<lparr>model = init, rng = 0::nat, effects = []\<rparr>" 2 2015] by simp
  then have mem: "?df ! 1 \<in> set ?df" by simp
  have yr: "Year (?df ! 1) = 2016"
    by (simp add: generate_sample_data_def Let_def upto.simps split: prod.splits)
  from mem yr generated_table_invariant [of "\<lambda>s. s" "\<lambda>loc scale r. (loc + scale * real r, Suc r)"
        "\<lparr>model = init, rng = 0::nat, effects = []\<rparr>" 2 2015]
  show ?thesis by blast
qed

text \<open>
  C9. \<open>generate_sample_data\<close> seeds the generator with 42 before it draws, so the table
  and the generator's final state depend on \<open>years\<close> and \<open>start_year\<close> only, not on the
  state the call starts from: two calls with the same arguments return the same table.
  The table is stored in \<open>self.data\<close>, and its Year column is \<open>start_year\<close>,
  \<open>start_year + 1\<close>, ..., \<open>start_year + years - 1\<close>.
\<close>

theorem generate_sample_data_deterministic:
  "fst (generate_sample_data seed normal w1 years start_year)
     = fst (generate_sample_data seed normal w2 years start_year)
   \<and> rng (snd (generate_sample_data seed normal w1 years start_year))
     = rng (snd (generate_sample_data seed normal w2 years start_year))
   \<and> data (model (snd (generate_sample_data seed normal w1 years start_year)))
     = Some (fst (generate_sample_data seed normal w1 years start_year))
   \<and> map Year (fst (generate_sample_data seed normal w1 years start_year))
     = [start_year .. start_year + years - 1]"
  using map_nth [of "[start_year .. start_year + years - 1]"]
  by (simp add: generate_sample_data_def calculate_gdp_def Let_def split_beta o_def)

section \<open>Properties of the consumers\<close>

text \<open>
  C10. Called while \<open>self.data\<close> is \<open>None\<close>, each of the four plotting methods and
  \<open>print_summary\<close> raises the guard's \<open>ValueError\<close> and leaves everything as it was: the
  calculator object is unchanged, no file is saved and nothing is printed.
\<close>

theorem consumers_need_data:
  "data (model w) = None \<longrightarrow>
     plot_gdp_trend w save_path = (Inl ValueError_no_data, w)
   \<and> plot_gdp_components w save_path = (Inl ValueError_no_data, w)
   \<and> plot_growth_rate w save_path = (Inl ValueError_no_data, w)
   \<and> plot_all_components_trends w save_path = (Inl ValueError_no_data, w)
   \<and> print_summary w = (Inl ValueError_no_data, w)"
  by (simp add: plot_gdp_trend_def plot_gdp_components_def plot_growth_rate_def
      plot_all_components_trends_def print_summary_def)

theorem consumers_need_data_witness:
  "plot_gdp_trend \<lparr>model = init, rng = (), effects = []\<rparr> ''gdp_trend.png''
     = (Inl ValueError_no_data, \<lparr>model = init, rng = (), effects = []\<rparr>)
   \<and> print_summary \<lparr>model = init, rng = (), effects = []\<rparr>
     = (Inl ValueError_no_data, \<lparr>model = init, rng = (), effects = []\<rparr>)"
  using consumers_need_data [of "\<lparr>model = init, rng = (), effects = []\<rparr>" "''gdp_trend.png''"]
  by (simp add: init_def)

section \<open>Growth rates, cell by cell\<close>

lemma length_pct_change_from: "length (pct_change_from p xs) = length xs"
  by (induction xs arbitrary: p) auto

lemma nth_pct_change_from:
  "i < length xs \<Longrightarrow>
   pct_change_from p xs ! i = fl (fl (Fin (xs ! i) / Fin ((p # xs) ! i)) - Fin 1)"
proof (induction xs arbitrary: p i)
  case Nil
  then show ?case by simp
next
  case (Cons x xs)
  then show ?case by (cases i) (simp_all del: divide_pyfloat.simps)
qed

lemma length_pct_change: "length (pct_change xs) = length xs"
  by (cases xs) (auto simp: pct_change_def length_pct_change_from)

lemma nth_pct_change:
  "1 \<le> i \<Longrightarrow> i < length xs \<Longrightarrow>
   pct_change xs ! i = fl (fl (Fin (xs ! i) / Fin (xs ! (i - 1))) - Fin 1)"
  by (cases xs; cases i) (simp_all add: pct_change_def nth_pct_change_from del: divide_pyfloat.simps)

lemma hd_pct_change: "xs \<noteq> [] \<Longrightarrow> pct_change xs ! 0 = NaN"
  by (cases xs) (auto simp: pct_change_def)

text \<open>Before any rounding, the expression of the source is the formula of the specification.\<close>

lemma pct_growth: "(Fin x / Fin p - Fin 1) * Fin 100 = growth_formula p x"
  by (auto simp: growth_formula_def minus_pyfloat_def field_simps)

lemma length_growth_rate: "length (growth_rate df) = length df"
  by (simp add: growth_rate_def length_pct_change)

lemma nth_growth_rate:
  "1 \<le> i \<Longrightarrow> i < length df \<Longrightarrow>
   growth_rate df ! i =
     fl (fl (fl (Fin (GDP (df ! i)) / Fin (GDP (df ! (i - 1)))) - Fin 1) * Fin 100)"
  by (simp add: growth_rate_def length_pct_change nth_pct_change del: divide_pyfloat.simps)

lemma hd_growth_rate: "df \<noteq> [] \<Longrightarrow> growth_rate df ! 0 = NaN"
  by (simp add: growth_rate_def length_pct_change hd_pct_change)

lemma tl_growth_rate:
  "drop 1 (growth_rate df) =
   map (\<lambda>i. fl (fl (fl (Fin (GDP (df ! i)) / Fin (GDP (df ! (i - 1)))) - Fin 1) * Fin 100))
     [1 ..< length df]"
  by (rule nth_equalityI) (auto simp: length_growth_rate nth_growth_rate simp del: divide_pyfloat.simps)

text \<open>Zero and one are doubles.\<close>

lemma double_0: "double 0 = Fin 0"
  by (simp add: double_def)

lemma double_1: "double 1 = Fin 1"
  by (simp add: double_def ilog2.simps pow2_def rne_def Let_def)

section \<open>Where the maxima are found\<close>

text \<open>
  The scan returns the first position that holds the greatest cell: no cell is greater,
  and every cell before it is strictly smaller.
\<close>

lemma first_best_max:
  fixes pre xs :: "real list"
  assumes "bi < length pre" "pre ! bi = b" "\<forall>j<length pre. pre ! j \<le> b"
    "\<forall>j<bi. pre ! j < b" "i = length pre"
  shows "first_best (\<lambda>v b. b < v) xs i bi b < length (pre @ xs)
    \<and> (\<forall>j<length (pre @ xs). (pre @ xs) ! j \<le> (pre @ xs) ! first_best (\<lambda>v b. b < v) xs i bi b)
    \<and> (\<forall>j<first_best (\<lambda>v b. b < v) xs i bi b.
          (pre @ xs) ! j < (pre @ xs) ! first_best (\<lambda>v b. b < v) xs i bi b)"
  using assms
proof (induction xs arbitrary: pre bi b i)
  case Nil
  then show ?case by auto
next
  case (Cons x xs)
  show ?case
  proof (cases "b < x")
    case True
    have "i < length (pre @ [x])" "(pre @ [x]) ! i = x"
      "\<forall>j<length (pre @ [x]). (pre @ [x]) ! j \<le> x"
      "\<forall>j<i. (pre @ [x]) ! j < x" "Suc i = length (pre @ [x])"
      using Cons.prems True by (auto simp: nth_append less_Suc_eq intro: le_less_trans less_imp_le)
    from Cons.IH [OF this] True show ?thesis by simp
  next
    case False
    have "bi < length (pre @ [x])" "(pre @ [x]) ! bi = b"
      "\<forall>j<length (pre @ [x]). (pre @ [x]) ! j \<le> b"
      "\<forall>j<bi. (pre @ [x]) ! j < b" "Suc i = length (pre @ [x])"
      using Cons.prems False by (auto simp: nth_append less_Suc_eq)
    from Cons.IH [OF this] False show ?thesis by simp
  qed
qed

lemma idxmax_first:
  assumes "xs \<noteq> []"
  shows "\<exists>k. idxmax xs = Inr k \<and> k < length xs \<and> (\<forall>j<length xs. xs ! j \<le> xs ! k)
           \<and> (\<forall>j<k. xs ! j < xs ! k)"
proof -
  from assms obtain x rest where xs: "xs = x # rest" by (cases xs) auto
  have "first_best (\<lambda>v b. b < v) rest 1 0 x < length ([x] @ rest)
    \<and> (\<forall>j<length ([x] @ rest). ([x] @ rest) ! j \<le> ([x] @ rest) ! first_best (\<lambda>v b. b < v) rest 1 0 x)
    \<and> (\<forall>j<first_best (\<lambda>v b. b < v) rest 1 0 x.
          ([x] @ rest) ! j < ([x] @ rest) ! first_best (\<lambda>v b. b < v) rest 1 0 x)"
    by (rule first_best_max) auto
  then show ?thesis by (simp add: xs idxmax_def)
qed

lemma first_best_uminus:
  fixes xs :: "real list"
  shows "first_best (\<lambda>v b. v < b) xs i bi b = first_best (\<lambda>v b. b < v) (map uminus xs) i bi (- b)"
  by (induction xs arbitrary: i bi b) auto

lemma idxmin_idxmax: "idxmin xs = idxmax (map uminus xs)"
  by (cases xs) (auto simp: idxmin_def idxmax_def first_best_uminus)

lemma idxmin_first:
  assumes "xs \<noteq> []"
  shows "\<exists>k. idxmin xs = Inr k \<and> k < length xs \<and> (\<forall>j<length xs. xs ! k \<le> xs ! j)
           \<and> (\<forall>j<k. xs ! k < xs ! j)"
proof -
  from assms have "map uminus xs \<noteq> []" by simp
  from idxmax_first [OF this] show ?thesis
    by (auto simp: idxmin_idxmax)
qed

lemma Max_at:
  fixes xs :: "real list"
  assumes "k < length xs" "\<forall>j<length xs. xs ! j \<le> xs ! k"
  shows "Max (set xs) = xs ! k"
proof (rule Max_eqI)
  show "finite (set xs)" by simp
  show "y \<le> xs ! k" if "y \<in> set xs" for y
    using that assms(2) by (auto simp: in_set_conv_nth)
  show "xs ! k \<in> set xs" using assms(1) by simp
qed

lemma Min_at:
  fixes xs :: "real list"
  assumes "k < length xs" "\<forall>j<length xs. xs ! k \<le> xs ! j"
  shows "Min (set xs) = xs ! k"
proof (rule Min_eqI)
  show "finite (set xs)" by simp
  show "xs ! k \<le> y" if "y \<in> set xs" for y
    using that assms(2) by (auto simp: in_set_conv_nth)
  show "xs ! k \<in> set xs" using assms(1) by simp
qed

lemma fl_less_trans: "fl_less a b \<Longrightarrow> fl_less b c \<Longrightarrow> fl_less a c"
  by (cases a; cases b; cases c) auto

lemma fl_less_cases: "a \<noteq> NaN \<Longrightarrow> b \<noteq> NaN \<Longrightarrow> fl_less a b \<or> a = b \<or> fl_less b a"
  by (cases a; cases b) auto

lemma fl_less_irrefl: "\<not> fl_less a a"
  by (cases a) auto

lemma fl_less_not_nan: "fl_less a b \<Longrightarrow> a \<noteq> NaN \<and> b \<noteq> NaN"
  by (cases a; cases b) auto

text \<open>
  The same for a float column with \<open>NaN\<close> cells, which the scan passes over.
\<close>

lemma skipna_argmax_inv:
  assumes "i = length pre"
    and "case best of
           None \<Rightarrow> (\<forall>j<length pre. pre ! j = NaN)
         | Some (bi, b) \<Rightarrow> bi < length pre \<and> pre ! bi = b \<and> b \<noteq> NaN
             \<and> (\<forall>j<length pre. \<not> fl_less b (pre ! j))
             \<and> (\<forall>j<bi. pre ! j \<noteq> NaN \<longrightarrow> fl_less (pre ! j) b)"
  shows "case skipna_argmax xs i best of
           None \<Rightarrow> (\<forall>j<length (pre @ xs). (pre @ xs) ! j = NaN)
         | Some (k, v) \<Rightarrow> k < length (pre @ xs) \<and> (pre @ xs) ! k = v \<and> v \<noteq> NaN
             \<and> (\<forall>j<length (pre @ xs). \<not> fl_less v ((pre @ xs) ! j))
             \<and> (\<forall>j<k. (pre @ xs) ! j \<noteq> NaN \<longrightarrow> fl_less ((pre @ xs) ! j) v)"
  using assms
proof (induction xs arbitrary: pre i best)
  case Nil
  then show ?case by (auto split: option.splits)
next
  case (Cons x xs)
  let ?best' = "if x = NaN then best
        else case best of
               None \<Rightarrow> Some (i, x)
             | Some (bi, b) \<Rightarrow> if fl_less b x then Some (i, x) else best"
  have len: "Suc i = length (pre @ [x])" using Cons.prems(1) by simp
  have inv: "case ?best' of
           None \<Rightarrow> (\<forall>j<length (pre @ [x]). (pre @ [x]) ! j = NaN)
         | Some (bi, b) \<Rightarrow> bi < length (pre @ [x]) \<and> (pre @ [x]) ! bi = b \<and> b \<noteq> NaN
             \<and> (\<forall>j<length (pre @ [x]). \<not> fl_less b ((pre @ [x]) ! j))
             \<and> (\<forall>j<bi. (pre @ [x]) ! j \<noteq> NaN \<longrightarrow> fl_less ((pre @ [x]) ! j) b)"
  proof (cases "x = NaN")
    case True
    then show ?thesis using Cons.prems
      by (auto simp: nth_append less_Suc_eq split: option.splits dest: fl_less_not_nan)
  next
    case xn: False
    show ?thesis
    proof (cases best)
      case None
      then show ?thesis using Cons.prems xn
        by (auto simp: nth_append less_Suc_eq fl_less_irrefl dest: fl_less_not_nan)
    next
      case (Some p)
      obtain bi b where p: "p = (bi, b)" by (cases p)
      show ?thesis
      proof (cases "fl_less b x")
        case True
        have "\<not> fl_less x (pre ! j)" if "j < length pre" for j
        proof
          assume "fl_less x (pre ! j)"
          with True have "fl_less b (pre ! j)" by (rule fl_less_trans)
          with Cons.prems(2) that show False by (simp add: Some p)
        qed
        moreover have "fl_less (pre ! j) x" if "j < length pre" "pre ! j \<noteq> NaN" for j
        proof -
          have "b \<noteq> NaN" "\<not> fl_less b (pre ! j)"
            using Cons.prems(2) that by (simp_all add: Some p)
          with that(2) have "fl_less (pre ! j) b \<or> pre ! j = b"
            using fl_less_cases [of "pre ! j" b] by blast
          with True show ?thesis by (auto intro: fl_less_trans)
        qed
        ultimately show ?thesis using Cons.prems xn True
          by (auto simp: Some p nth_append less_Suc_eq fl_less_irrefl)
      next
        case False
        then show ?thesis using Cons.prems xn
          by (auto simp: Some p nth_append less_Suc_eq)
      qed
    qed
  qed
  have eq: "pre @ x # xs = (pre @ [x]) @ xs" by simp
  show ?case unfolding skipna_argmax.simps eq by (rule Cons.IH [OF len inv])
qed

lemma nan_idxmax_first:
  assumes "nan_idxmax xs = Inr k"
  shows "k < length xs \<and> xs ! k \<noteq> NaN \<and> (\<forall>j<length xs. \<not> fl_less (xs ! k) (xs ! j))
         \<and> (\<forall>j<k. xs ! j \<noteq> NaN \<longrightarrow> fl_less (xs ! j) (xs ! k))"
proof -
  have "case skipna_argmax xs 0 None of
           None \<Rightarrow> (\<forall>j<length ([] @ xs). ([] @ xs) ! j = NaN)
         | Some (k, v) \<Rightarrow> k < length ([] @ xs) \<and> ([] @ xs) ! k = v \<and> v \<noteq> NaN
             \<and> (\<forall>j<length ([] @ xs). \<not> fl_less v (([] @ xs) ! j))
             \<and> (\<forall>j<k. ([] @ xs) ! j \<noteq> NaN \<longrightarrow> fl_less (([] @ xs) ! j) v)"
    by (rule skipna_argmax_inv) auto
  with assms show ?thesis
    by (auto simp: nan_idxmax_def split: if_splits option.splits)
qed

lemma nan_idxmax_all_nan:
  "nan_idxmax xs = Inl Error_all_nan \<longleftrightarrow> xs \<noteq> [] \<and> (\<forall>v \<in> set xs. v = NaN)"
proof -
  have "case skipna_argmax xs 0 None of
           None \<Rightarrow> (\<forall>j<length ([] @ xs). ([] @ xs) ! j = NaN)
         | Some (k, v) \<Rightarrow> k < length ([] @ xs) \<and> ([] @ xs) ! k = v \<and> v \<noteq> NaN
             \<and> (\<forall>j<length ([] @ xs). \<not> fl_less v (([] @ xs) ! j))
             \<and> (\<forall>j<k. ([] @ xs) ! j \<noteq> NaN \<longrightarrow> fl_less (([] @ xs) ! j) v)"
    by (rule skipna_argmax_inv) auto
  then show ?thesis
    by (auto simp: nan_idxmax_def in_set_conv_nth split: if_splits option.splits)
       (metis nth_mem)
qed

lemma nan_max_from_argmax:
  assumes "case best of None \<Rightarrow> b = NaN | Some (bi, v) \<Rightarrow> b = v \<and> v \<noteq> NaN"
  shows "nan_max_from xs b = (case skipna_argmax xs i best of None \<Rightarrow> NaN | Some (k, v) \<Rightarrow> v)"
  using assms
proof (induction xs arbitrary: b i best)
  case Nil
  then show ?case by (auto split: option.splits)
next
  case (Cons x xs)
  show ?case
    unfolding nan_max_from.simps skipna_argmax.simps
    by (rule Cons.IH) (use Cons.prems in \<open>auto split: option.splits dest: fl_less_not_nan\<close>)
qed

lemma nan_max_at: "nan_idxmax xs = Inr k \<Longrightarrow> nan_max xs = xs ! k"
proof -
  assume a: "nan_idxmax xs = Inr k"
  have inv: "case skipna_argmax xs 0 None of
           None \<Rightarrow> (\<forall>j<length ([] @ xs). ([] @ xs) ! j = NaN)
         | Some (k, v) \<Rightarrow> k < length ([] @ xs) \<and> ([] @ xs) ! k = v \<and> v \<noteq> NaN
             \<and> (\<forall>j<length ([] @ xs). \<not> fl_less v (([] @ xs) ! j))
             \<and> (\<forall>j<k. ([] @ xs) ! j \<noteq> NaN \<longrightarrow> fl_less (([] @ xs) ! j) v)"
    by (rule skipna_argmax_inv) auto
  have "nan_max xs = (case skipna_argmax xs 0 None of None \<Rightarrow> NaN | Some (k, v) \<Rightarrow> v)"
    unfolding nan_max_def by (rule nan_max_from_argmax) simp
  with a inv show ?thesis
    by (auto simp: nan_idxmax_def split: if_splits option.splits)
qed

section \<open>What print\_summary prints\<close>

lemma print_summary_effects:
  assumes "data (model w) = Some df" "idxmax (map GDP df) = Inr imax" "idxmin (map GDP df) = Inr imin"
  shows "effects (snd (print_summary w)) =
     effects w @ [Print_header,
                  Print_period (year_min (map Year df)) (year_max (map Year df)),
                  Print_mean_gdp (series_mean (map GDP df)),
                  Print_max_gdp (series_max (map GDP df)) (Year (df ! imax)),
                  Print_min_gdp (series_min (map GDP df)) (Year (df ! imin)),
                  Print_mean_growth (nan_mean (drop 1 (growth_rate df)))]
       @ (case nan_idxmax (drop 1 (growth_rate df)) of
            Inl e \<Rightarrow> []
          | Inr k \<Rightarrow> [Print_max_growth (nan_max (drop 1 (growth_rate df))) (map Year df ! Suc k),
                      Print_table df])"
    and "fst (print_summary w) =
       (case nan_idxmax (drop 1 (growth_rate df)) of Inl e \<Rightarrow> Inl e | Inr k \<Rightarrow> Inr ())"
proof -
  have "imax < length df" "imin < length df"
    using assms(2,3) idxmax_first [of "map GDP df"] idxmin_first [of "map GDP df"]
    by (cases df; auto simp: idxmax_def idxmin_def)+
  then show "effects (snd (print_summary w)) =
     effects w @ [Print_header,
                  Print_period (year_min (map Year df)) (year_max (map Year df)),
                  Print_mean_gdp (series_mean (map GDP df)),
                  Print_max_gdp (series_max (map GDP df)) (Year (df ! imax)),
                  Print_min_gdp (series_min (map GDP df)) (Year (df ! imin)),
                  Print_mean_growth (nan_mean (drop 1 (growth_rate df)))]
       @ (case nan_idxmax (drop 1 (growth_rate df)) of
            Inl e \<Rightarrow> []
          | Inr k \<Rightarrow> [Print_max_growth (nan_max (drop 1 (growth_rate df))) (map Year df ! Suc k),
                      Print_table df])"
    using assms by (simp add: print_summary_def Let_def emit_def split: sum.splits)
  show "fst (print_summary w) =
       (case nan_idxmax (drop 1 (growth_rate df)) of Inl e \<Rightarrow> Inl e | Inr k \<Rightarrow> Inr ())"
    using assms by (simp add: print_summary_def Let_def emit_def split: sum.splits)
qed

text \<open>
  C3 (as the code has it). In a table of at least 2 records the growth rate of period
  \<open>i \<ge> 1\<close> is \<open>(GDP[i] / GDP[i-1] - 1) * 100\<close>, computed in doubles: the quotient, the
  difference and the product are each rounded. The first period has none (\<open>NaN\<close>). The
  mean and the maximum that \<open>print_summary\<close> prints, and the bars that
  \<open>plot_growth_rate\<close> draws, are taken over the rates of the periods \<open>1, ..., n - 1\<close>
  only. Without the roundings the expression is \<open>(GDP[i] - GDP[i-1]) / GDP[i-1] * 100\<close>.
  A table whose GDP column is 100, 110 has the growth rates \<open>NaN\<close> and
  \<open>5629499534213125 / 2 ^ 49\<close>, the fifth double above 10 (10.000000000000009).
\<close>

theorem growth_rate_as_computed:
  "(2 \<le> length df \<longrightarrow>
      length (growth_rate df) = length df
    \<and> growth_rate df ! 0 = NaN
    \<and> (\<forall>i. 1 \<le> i \<and> i < length df \<longrightarrow>
          growth_rate df ! i =
            fl (fl (fl (Fin (GDP (df ! i)) / Fin (GDP (df ! (i - 1)))) - Fin 1) * Fin 100))
    \<and> (data (model w) = Some df \<longrightarrow>
          (\<exists>before after.
             effects (snd (print_summary w)) =
               effects w @ before
                 @ [Print_mean_growth
                      (nan_mean (map (\<lambda>i. fl (fl (fl (Fin (GDP (df ! i)) / Fin (GDP (df ! (i - 1))))
                                                     - Fin 1) * Fin 100))
                                  [1 ..< length df]))]
                 @ after
             \<and> (after = [] \<or>
                 (\<exists>y. after =
                    [Print_max_growth
                       (nan_max (map (\<lambda>i. fl (fl (fl (Fin (GDP (df ! i)) / Fin (GDP (df ! (i - 1))))
                                                      - Fin 1) * Fin 100))
                                   [1 ..< length df])) y,
                     Print_table df])))
          \<and> plot_growth_rate w save_path =
               (Inr (),
                emit [Savefig save_path
                        (Growth (zip (drop 1 (map Year df))
                           (map (\<lambda>i. fl (fl (fl (Fin (GDP (df ! i)) / Fin (GDP (df ! (i - 1))))
                                               - Fin 1) * Fin 100))
                              [1 ..< length df]))),
                      Print_saved save_path, Show] w)))
   \<and> (Fin x / Fin p - Fin 1) * Fin 100 = growth_formula p x
   \<and> (map GDP df = [100, 110] \<longrightarrow>
        growth_rate df = [NaN, Fin (5629499534213125 / 562949953421312)])"
proof (intro conjI impI allI)
  assume len: "2 \<le> length df"
  show "length (growth_rate df) = length df" by (rule length_growth_rate)
  show "growth_rate df ! 0 = NaN" using len by (intro hd_growth_rate) auto
  show "growth_rate df ! i =
            fl (fl (fl (Fin (GDP (df ! i)) / Fin (GDP (df ! (i - 1)))) - Fin 1) * Fin 100)"
    if "1 \<le> i \<and> i < length df" for i
    using that by (simp add: nth_growth_rate del: divide_pyfloat.simps)
  assume dat: "data (model w) = Some df"
  let ?rates = "map (\<lambda>i. fl (fl (fl (Fin (GDP (df ! i)) / Fin (GDP (df ! (i - 1))))
                                                     - Fin 1) * Fin 100)) [1 ..< length df]"
  from len have ne: "map GDP df \<noteq> []" by auto
  from idxmax_first [OF ne] obtain imax where imax: "idxmax (map GDP df) = Inr imax" by blast
  from idxmin_first [OF ne] obtain imin where imin: "idxmin (map GDP df) = Inr imin" by blast
  note eff = print_summary_effects(1) [OF dat imax imin, unfolded tl_growth_rate]
  show "\<exists>before after.
             effects (snd (print_summary w)) =
               effects w @ before @ [Print_mean_growth (nan_mean ?rates)] @ after
             \<and> (after = [] \<or>
                 (\<exists>y. after = [Print_max_growth (nan_max ?rates) y, Print_table df]))"
    apply (rule exI [of _ "[Print_header,
                  Print_period (year_min (map Year df)) (year_max (map Year df)),
                  Print_mean_gdp (series_mean (map GDP df)),
                  Print_max_gdp (series_max (map GDP df)) (Year (df ! imax)),
                  Print_min_gdp (series_min (map GDP df)) (Year (df ! imin))]"])
    apply (subst eff)
    apply (cases "nan_idxmax ?rates")
     apply auto
    done
  show "plot_growth_rate w save_path =
               (Inr (),
                emit [Savefig save_path (Growth (zip (drop 1 (map Year df)) ?rates)),
                      Print_saved save_path, Show] w)"
    using dat tl_growth_rate [of df] by (simp add: plot_growth_rate_def del: divide_pyfloat.simps)
next
  show "(Fin x / Fin p - Fin 1) * Fin 100 = growth_formula p x" by (rule pct_growth)
next
  assume "map GDP df = [100, 110]"
  then show "growth_rate df = [NaN, Fin (5629499534213125 / 562949953421312)]"
    by (simp add: growth_rate_def pct_change_def minus_pyfloat_def
        double_def ilog2.simps pow2_def rne_def Let_def)
qed

theorem growth_rate_as_computed_witness:
  "growth_rate
     [\<lparr>Year = 2015, Consumption = 60, Investment = 20, Government_Spending = 15,
        Exports = 10, Imports = 5, GDP = 100, Net_Exports = 5\<rparr>,
      \<lparr>Year = 2016, Consumption = 66, Investment = 22, Government_Spending = 16,
        Exports = 12, Imports = 6, GDP = 110, Net_Exports = 6\<rparr>]
     = [NaN, Fin (5629499534213125 / 562949953421312)]
   \<and> effects (snd (print_summary
        \<lparr>model = \<lparr>data = Some
           [\<lparr>Year = 2015, Consumption = 60, Investment = 20, Government_Spending = 15,
              Exports = 10, Imports = 5, GDP = 100, Net_Exports = 5\<rparr>,
            \<lparr>Year = 2016, Consumption = 66, Investment = 22, Government_Spending = 16,
              Exports = 12, Imports = 6, GDP = 110, Net_Exports = 6\<rparr>],
           gdp_values = None\<rparr>, rng = (), effects = []\<rparr>))
     = [Print_header, Print_period (Fin 2015) (Fin 2016), Print_mean_gdp (Fin 105),
        Print_max_gdp (Fin 110) 2016, Print_min_gdp (Fin 100) 2015,
        Print_mean_growth (Fin (5629499534213125 / 562949953421312)),
        Print_max_growth (Fin (5629499534213125 / 562949953421312)) 2016,
        Print_table
           [\<lparr>Year = 2015, Consumption = 60, Investment = 20, Government_Spending = 15,
              Exports = 10, Imports = 5, GDP = 100, Net_Exports = 5\<rparr>,
            \<lparr>Year = 2016, Consumption = 66, Investment = 22, Government_Spending = 16,
              Exports = 12, Imports = 6, GDP = 110, Net_Exports = 6\<rparr>]]
   \<and> fst (plot_growth_rate
        \<lparr>model = \<lparr>data = Some
           [\<lparr>Year = 2015, Consumption = 60, Investment = 20, Government_Spending = 15,
              Exports = 10, Imports = 5, GDP = 100, Net_Exports = 5\<rparr>,
            \<lparr>Year = 2016, Consumption = 66, Investment = 22, Government_Spending = 16,
              Exports = 12, Imports = 6, GDP = 110, Net_Exports = 6\<rparr>],
           gdp_values = None\<rparr>, rng = (), effects = []\<rparr> ''gdp_growth_rate.png'') = Inr ()"
proof -
  let ?df = "[\<lparr>Year = 2015, Consumption = 60, Investment = 20, Government_Spending = 15,
        Exports = 10, Imports = 5, GDP = 100, Net_Exports = 5\<rparr>,
      \<lparr>Year = 2016, Consumption = 66, Investment = 22, Government_Spending = 16,
        Exports = 12, Imports = 6, GDP = 110, Net_Exports = 6\<rparr>]"
  let ?w = "\<lparr>model = \<lparr>data = Some ?df, gdp_values = None\<rparr>, rng = (), effects = []\<rparr>"
  note t = growth_rate_as_computed [of ?df ?w "''gdp_growth_rate.png''" 110 100]
  have h1: "2 \<le> length ?df" by simp
  have h2: "data (model ?w) = Some ?df" by simp
  have h3: "map GDP ?df = [100, 110]" by simp
  have g: "growth_rate ?df = [NaN, Fin (5629499534213125 / 562949953421312)]"
    by (rule t [THEN conjunct2, THEN conjunct2, THEN mp, OF h3])
  have "plot_growth_rate ?w ''gdp_growth_rate.png'' =
               (Inr (),
                emit [Savefig ''gdp_growth_rate.png''
                        (Growth (zip (drop 1 (map Year ?df))
                           (map (\<lambda>i. fl (fl (fl (Fin (GDP (?df ! i)) / Fin (GDP (?df ! (i - 1))))
                                               - Fin 1) * Fin 100))
                              [1 ..< length ?df]))),
                      Print_saved ''gdp_growth_rate.png'', Show] ?w)"
    by (rule t [THEN conjunct1, THEN mp, OF h1, THEN conjunct2, THEN conjunct2, THEN conjunct2,
          THEN mp, OF h2, THEN conjunct2])
  then have "fst (plot_growth_rate ?w ''gdp_growth_rate.png'') = Inr ()"
    by (simp only: fst_conv)
  moreover have "effects (snd (print_summary ?w))
     = [Print_header, Print_period (Fin 2015) (Fin 2016), Print_mean_gdp (Fin 105),
        Print_max_gdp (Fin 110) 2016, Print_min_gdp (Fin 100) 2015,
        Print_mean_growth (Fin (5629499534213125 / 562949953421312)),
        Print_max_growth (Fin (5629499534213125 / 562949953421312)) 2016,
        Print_table ?df]"
    by (simp add: print_summary_def Let_def emit_def idxmax_def idxmin_def year_min_def year_max_def
      series_mean_def series_max_def series_min_def nan_mean_def nan_max_def nan_idxmax_def g)
  ultimately show ?thesis using g by (intro conjI)
qed

text \<open>
  C3 as stated fails: for the GDP column 100, 110 the formula of the specification gives
  10, whether it is computed exactly or in doubles, and the code gives
  \<open>5629499534213125 / 2 ^ 49\<close>: \<open>110 / 100\<close> is not a double, and the error of its rounding
  is what remains after 1 is subtracted.
\<close>

theorem growth_rate_formula_counterexample:
  "growth_rate
     [\<lparr>Year = 2015, Consumption = 60, Investment = 20, Government_Spending = 15,
        Exports = 10, Imports = 5, GDP = 100, Net_Exports = 5\<rparr>,
      \<lparr>Year = 2016, Consumption = 66, Investment = 22, Government_Spending = 16,
        Exports = 12, Imports = 6, GDP = 110, Net_Exports = 6\<rparr>] ! 1
     = Fin (5629499534213125 / 562949953421312)
   \<and> growth_formula 100 110 = Fin 10
   \<and> fl (fl (fl (Fin 110 - Fin 100) / Fin 100) * Fin 100) = Fin 10
   \<and> growth_rate
     [\<lparr>Year = 2015, Consumption = 60, Investment = 20, Government_Spending = 15,
        Exports = 10, Imports = 5, GDP = 100, Net_Exports = 5\<rparr>,
      \<lparr>Year = 2016, Consumption = 66, Investment = 22, Government_Spending = 16,
        Exports = 12, Imports = 6, GDP = 110, Net_Exports = 6\<rparr>] ! 1
     \<noteq> growth_formula 100 110"
  by (simp add: growth_rate_def pct_change_def growth_formula_def minus_pyfloat_def
      double_def ilog2.simps pow2_def rne_def Let_def)

text \<open>
  C8. When every period has the same nonzero GDP, the growth rate of every period after
  the first is 0, and these zeros are the bars that \<open>plot_growth_rate\<close> draws.
\<close>

theorem constant_series_growth:
  "v \<noteq> 0 \<and> (\<forall>row \<in> set df. GDP row = v) \<longrightarrow>
     (\<forall>i. 1 \<le> i \<and> i < length df \<longrightarrow> growth_rate df ! i = Fin 0)
   \<and> (data (model w) = Some df \<longrightarrow>
        plot_growth_rate w save_path =
          (Inr (), emit [Savefig save_path
                           (Growth (zip (drop 1 (map Year df)) (replicate (length df - 1) (Fin 0)))),
                         Print_saved save_path, Show] w))"
proof (intro impI conjI allI)
  assume a: "v \<noteq> 0 \<and> (\<forall>row \<in> set df. GDP row = v)"
  show g: "growth_rate df ! i = Fin 0" if "1 \<le> i \<and> i < length df" for i
  proof -
    have "GDP (df ! i) = v" "GDP (df ! (i - 1)) = v"
      using a that by auto
    then show ?thesis using a that
      by (simp add: nth_growth_rate minus_pyfloat_def double_0 double_1)
  qed
  have "drop 1 (growth_rate df) = replicate (length df - 1) (Fin 0)"
    by (rule nth_equalityI) (auto simp: length_growth_rate g)
  then show "plot_growth_rate w save_path =
          (Inr (), emit [Savefig save_path
                           (Growth (zip (drop 1 (map Year df)) (replicate (length df - 1) (Fin 0)))),
                         Print_saved save_path, Show] w)"
    if "data (model w) = Some df"
    using that by (simp add: plot_growth_rate_def)
qed

theorem constant_series_growth_witness:
  "growth_rate
     [\<lparr>Year = 2015, Consumption = 60, Investment = 20, Government_Spending = 15,
        Exports = 10, Imports = 5, GDP = 100, Net_Exports = 5\<rparr>,
      \<lparr>Year = 2016, Consumption = 58, Investment = 21, Government_Spending = 17,
        Exports = 12, Imports = 8, GDP = 100, Net_Exports = 4\<rparr>,
      \<lparr>Year = 2017, Consumption = 59, Investment = 20, Government_Spending = 18,
        Exports = 9, Imports = 6, GDP = 100, Net_Exports = 3\<rparr>] ! 2 = Fin 0
   \<and> fst (plot_growth_rate
        \<lparr>model = \<lparr>data = Some
           [\<lparr>Year = 2015, Consumption = 60, Investment = 20, Government_Spending = 15,
              Exports = 10, Imports = 5, GDP = 100, Net_Exports = 5\<rparr>,
            \<lparr>Year = 2016, Consumption = 58, Investment = 21, Government_Spending = 17,
              Exports = 12, Imports = 8, GDP = 100, Net_Exports = 4\<rparr>,
            \<lparr>Year = 2017, Consumption = 59, Investment = 20, Government_Spending = 18,
              Exports = 9, Imports = 6, GDP = 100, Net_Exports = 3\<rparr>],
           gdp_values = None\<rparr>, rng = (), effects = []\<rparr> ''gdp_growth_rate.png'') = Inr ()"
proof -
  let ?df = "[\<lparr>Year = 2015, Consumption = 60, Investment = 20, Government_Spending = 15,
        Exports = 10, Imports = 5, GDP = 100, Net_Exports = 5\<rparr>,
      \<lparr>Year = 2016, Consumption = 58, Investment = 21, Government_Spending = 17,
        Exports = 12, Imports = 8, GDP = 100, Net_Exports = 4\<rparr>,
      \<lparr>Year = 2017, Consumption = 59, Investment = 20, Government_Spending = 18,
        Exports = 9, Imports = 6, GDP = 100, Net_Exports = 3\<rparr>]"
  let ?w = "\<lparr>model = \<lparr>data = Some ?df, gdp_values = None\<rparr>, rng = (), effects = []\<rparr>"
  have hyp: "(100::real) \<noteq> 0 \<and> (\<forall>row \<in> set ?df. GDP row = 100)" by simp
  from constant_series_growth [of 100 ?df ?w "''gdp_growth_rate.png''"] hyp
  have all: "\<forall>i. 1 \<le> i \<and> i < length ?df \<longrightarrow> growth_rate ?df ! i = Fin 0"
    and plot: "data (model ?w) = Some ?df \<longrightarrow>
        plot_growth_rate ?w ''gdp_growth_rate.png'' =
          (Inr (), emit [Savefig ''gdp_growth_rate.png''
                           (Growth (zip (drop 1 (map Year ?df)) (replicate (length ?df - 1) (Fin 0)))),
                         Print_saved ''gdp_growth_rate.png'', Show] ?w)"
    by blast+
  from all have "growth_rate ?df ! 2 = Fin 0" by simp
  moreover from plot have "fst (plot_growth_rate ?w ''gdp_growth_rate.png'') = Inr ()" by simp
  ultimately show ?thesis by blast
qed

section \<open>The summary of a table with one record\<close>

text \<open>
  A table with no record and a table with one record both make \<open>print_summary\<close> raise,
  at different lines: the first at \<open>idxmax\<close> of the empty GDP column, the second only
  at \<open>idxmax\<close> of the empty slice \<open>growth_rate[1:]\<close>, after the mean growth rate has been
  printed as \<open>NaN\<close>. \<open>plot_growth_rate\<close> draws a figure without bars for one record.
\<close>

lemma length_generate_sample_data:
  "length (fst (generate_sample_data seed normal w years start_year)) = nat years"
  by (simp add: generate_sample_data_def Let_def split_beta)

lemma data_generate_sample_data:
  "data (model (snd (generate_sample_data seed normal w years start_year)))
     = Some (fst (generate_sample_data seed normal w years start_year))"
  by (simp add: generate_sample_data_def Let_def split_beta)

lemma print_summary_no_record:
  "data (model w) = Some [] \<Longrightarrow>
   print_summary w =
     (Inl ValueError_empty_sequence,
      emit [Print_header, Print_period NaN NaN, Print_mean_gdp NaN] w)"
  by (simp add: print_summary_def Let_def idxmax_def year_min_def year_max_def series_mean_def)

lemma print_summary_one_record:
  "data (model w) = Some [r] \<Longrightarrow>
   print_summary w =
     (Inl ValueError_empty_sequence,
      emit [Print_header,
            Print_period (Fin (of_int (Year r))) (Fin (of_int (Year r))),
            Print_mean_gdp (Fin (GDP r)),
            Print_max_gdp (Fin (GDP r)) (Year r),
            Print_min_gdp (Fin (GDP r)) (Year r),
            Print_mean_growth NaN] w)"
  by (simp add: print_summary_def Let_def emit_def idxmax_def idxmin_def year_min_def year_max_def
      series_mean_def series_max_def series_min_def nan_mean_def nan_idxmax_def
      growth_rate_def pct_change_def)

lemma plot_growth_rate_one_record:
  "data (model w) = Some [r] \<Longrightarrow>
   plot_growth_rate w save_path =
     (Inr (), emit [Savefig save_path (Growth []), Print_saved save_path, Show] w)"
  by (simp add: plot_growth_rate_def growth_rate_def pct_change_def)

text \<open>
  C5. The claim asks that the summary of a table with exactly one record does not
  fail. The code fails there: after \<open>generate_sample_data(years=1)\<close>, whatever the
  generator draws, \<open>print_summary\<close> raises the \<open>ValueError\<close> of \<open>idxmax\<close> on an empty
  Series, while \<open>plot_growth_rate\<close> completes on the same table.
\<close>

theorem summary_single_record_raises:
  "fst (print_summary (snd (generate_sample_data seed normal w 1 start_year)))
     = Inl ValueError_empty_sequence
   \<and> fst (plot_growth_rate (snd (generate_sample_data seed normal w 1 start_year)) save_path)
     = Inr ()"
proof -
  let ?w = "snd (generate_sample_data seed normal w 1 start_year)"
  have "length (fst (generate_sample_data seed normal w 1 start_year)) = 1"
    by (simp add: length_generate_sample_data)
  then obtain r where "fst (generate_sample_data seed normal w 1 start_year) = [r]"
    by (auto simp: length_Suc_conv)
  then have dat: "data (model ?w) = Some [r]"
    by (simp add: data_generate_sample_data)
  show ?thesis
    by (simp add: print_summary_one_record [OF dat] plot_growth_rate_one_record [OF dat])
qed

section \<open>Ties\<close>

text \<open>\<open>nan_idxmax\<close> finds a position exactly when some cell is a number.\<close>

lemma nan_idxmax_succeeds: "(\<exists>k. nan_idxmax xs = Inr k) \<longleftrightarrow> (\<exists>v \<in> set xs. v \<noteq> NaN)"
proof -
  have inv: "case skipna_argmax xs 0 None of
           None \<Rightarrow> (\<forall>j<length ([] @ xs). ([] @ xs) ! j = NaN)
         | Some (k, v) \<Rightarrow> k < length ([] @ xs) \<and> ([] @ xs) ! k = v \<and> v \<noteq> NaN
             \<and> (\<forall>j<length ([] @ xs). \<not> fl_less v (([] @ xs) ! j))
             \<and> (\<forall>j<k. ([] @ xs) ! j \<noteq> NaN \<longrightarrow> fl_less (([] @ xs) ! j) v)"
    by (rule skipna_argmax_inv) auto
  show ?thesis
  proof (cases "skipna_argmax xs 0 None")
    case None
    with inv have "\<forall>v \<in> set xs. v = NaN" by (auto simp: in_set_conv_nth)
    then show ?thesis using None by (auto simp: nan_idxmax_def)
  next
    case (Some p)
    obtain k v where p: "p = (k, v)" by (cases p)
    from inv Some p have "k < length xs" "xs ! k \<noteq> NaN" by auto
    then have "xs \<noteq> []" "xs ! k \<in> set xs" by auto
    then show ?thesis using Some p \<open>xs ! k \<noteq> NaN\<close> by (auto simp: nan_idxmax_def)
  qed
qed

text \<open>
  C6. On a table with at least one record, the year printed with the maximum GDP is the
  year of the first record that holds the maximum: no record has a greater GDP and every
  earlier record has a strictly smaller one. The same holds for the minimum. The
  summary completes exactly when some growth rate after the first period is a number,
  and then the year printed with the maximum growth rate is the year of the first
  period, after the first, whose growth rate is the greatest.
\<close>

theorem summary_periods_earliest:
  "data (model w) = Some df \<and> df \<noteq> [] \<longrightarrow>
     (\<exists>kmax kmin after.
        kmax < length df \<and> kmin < length df
        \<and> (\<forall>j<length df. GDP (df ! j) \<le> GDP (df ! kmax))
        \<and> (\<forall>j<kmax. GDP (df ! j) < GDP (df ! kmax))
        \<and> (\<forall>j<length df. GDP (df ! kmin) \<le> GDP (df ! j))
        \<and> (\<forall>j<kmin. GDP (df ! kmin) < GDP (df ! j))
        \<and> effects (snd (print_summary w)) =
            effects w @ [Print_header,
                         Print_period (year_min (map Year df)) (year_max (map Year df)),
                         Print_mean_gdp (series_mean (map GDP df)),
                         Print_max_gdp (Fin (GDP (df ! kmax))) (Year (df ! kmax)),
                         Print_min_gdp (Fin (GDP (df ! kmin))) (Year (df ! kmin)),
                         Print_mean_growth (nan_mean (drop 1 (growth_rate df)))] @ after
        \<and> (fst (print_summary w) = Inr () \<longleftrightarrow>
             (\<exists>j. 1 \<le> j \<and> j < length df \<and> growth_rate df ! j \<noteq> NaN))
        \<and> (fst (print_summary w) = Inr () \<longrightarrow>
             (\<exists>kg. 1 \<le> kg \<and> kg < length df \<and> growth_rate df ! kg \<noteq> NaN
                \<and> (\<forall>j. 1 \<le> j \<and> j < length df \<longrightarrow>
                      \<not> fl_less (growth_rate df ! kg) (growth_rate df ! j))
                \<and> (\<forall>j. 1 \<le> j \<and> j < kg \<and> growth_rate df ! j \<noteq> NaN \<longrightarrow>
                      fl_less (growth_rate df ! j) (growth_rate df ! kg))
                \<and> after = [Print_max_growth (growth_rate df ! kg) (Year (df ! kg)),
                            Print_table df])))"
proof (intro impI)
  assume a: "data (model w) = Some df \<and> df \<noteq> []"
  then have dat: "data (model w) = Some df" and ne: "map GDP df \<noteq> []" by auto
  let ?g = "map GDP df"
  let ?rest = "drop 1 (growth_rate df)"
  from idxmax_first [OF ne] obtain kmax where kmax: "idxmax ?g = Inr kmax" "kmax < length df"
    "\<forall>j<length df. GDP (df ! j) \<le> GDP (df ! kmax)" "\<forall>j<kmax. GDP (df ! j) < GDP (df ! kmax)"
    by auto
  from idxmin_first [OF ne] obtain kmin where kmin: "idxmin ?g = Inr kmin" "kmin < length df"
    "\<forall>j<length df. GDP (df ! kmin) \<le> GDP (df ! j)" "\<forall>j<kmin. GDP (df ! kmin) < GDP (df ! j)"
    by auto
  have smax: "series_max ?g = Fin (GDP (df ! kmax))"
    using ne kmax(2,3) Max_at [of kmax ?g] by (simp add: series_max_def)
  have smin: "series_min ?g = Fin (GDP (df ! kmin))"
    using ne kmin(2,3) Min_at [of kmin ?g] by (simp add: series_min_def)
  let ?after = "case nan_idxmax ?rest of
            Inl e \<Rightarrow> []
          | Inr k \<Rightarrow> [Print_max_growth (nan_max ?rest) (map Year df ! Suc k), Print_table df]"
  note eff = print_summary_effects(1) [OF dat kmax(1) kmin(1), unfolded smax smin]
  note res = print_summary_effects(2) [OF dat kmax(1) kmin(1)]
  have len_rest: "length ?rest = length df - 1" by (simp add: length_growth_rate)
  have nth_rest: "?rest ! j = growth_rate df ! Suc j" if "Suc j < length df" for j
    using that by (simp add: length_growth_rate)
  have ok_iff: "fst (print_summary w) = Inr () \<longleftrightarrow>
             (\<exists>j. 1 \<le> j \<and> j < length df \<and> growth_rate df ! j \<noteq> NaN)"
  proof
    assume "fst (print_summary w) = Inr ()"
    then obtain k where k: "nan_idxmax ?rest = Inr k"
      using res by (cases "nan_idxmax ?rest") auto
    from nan_idxmax_first [OF k] have "k < length ?rest" "?rest ! k \<noteq> NaN" by auto
    then have "1 \<le> Suc k \<and> Suc k < length df \<and> growth_rate df ! Suc k \<noteq> NaN"
      by (auto simp: length_growth_rate)
    then show "\<exists>j. 1 \<le> j \<and> j < length df \<and> growth_rate df ! j \<noteq> NaN" by blast
  next
    assume "\<exists>j. 1 \<le> j \<and> j < length df \<and> growth_rate df ! j \<noteq> NaN"
    then obtain j where j: "1 \<le> j" "j < length df" "growth_rate df ! j \<noteq> NaN" by blast
    then have jl: "j - 1 < length ?rest" by (simp add: length_growth_rate)
    have "?rest ! (j - 1) = growth_rate df ! j"
      using j nth_rest [of "j - 1"] by simp
    with j(3) nth_mem [OF jl] have "?rest ! (j - 1) \<in> set ?rest" "?rest ! (j - 1) \<noteq> NaN"
      by simp_all
    then have "\<exists>v \<in> set ?rest. v \<noteq> NaN" by blast
    then obtain k where "nan_idxmax ?rest = Inr k"
      using nan_idxmax_succeeds [of ?rest] by blast
    then show "fst (print_summary w) = Inr ()" using res by simp
  qed
  have growth: "\<exists>kg. 1 \<le> kg \<and> kg < length df \<and> growth_rate df ! kg \<noteq> NaN
                \<and> (\<forall>j. 1 \<le> j \<and> j < length df \<longrightarrow>
                      \<not> fl_less (growth_rate df ! kg) (growth_rate df ! j))
                \<and> (\<forall>j. 1 \<le> j \<and> j < kg \<and> growth_rate df ! j \<noteq> NaN \<longrightarrow>
                      fl_less (growth_rate df ! j) (growth_rate df ! kg))
                \<and> ?after = [Print_max_growth (growth_rate df ! kg) (Year (df ! kg)),
                            Print_table df]"
    if ok: "fst (print_summary w) = Inr ()"
  proof -
    from ok obtain k where k: "nan_idxmax ?rest = Inr k"
      using res by (cases "nan_idxmax ?rest") auto
    note f = nan_idxmax_first [OF k]
    from f have "k < length ?rest" by blast
    then have kl: "Suc k < length df" by (simp add: length_growth_rate)
    have v: "?rest ! k = growth_rate df ! Suc k" using kl by (rule nth_rest)
    have 1: "growth_rate df ! Suc k \<noteq> NaN" using f v by simp
    have 2: "\<not> fl_less (growth_rate df ! Suc k) (growth_rate df ! j)"
      if "1 \<le> j \<and> j < length df" for j
    proof -
      from that have "j - 1 < length ?rest" "Suc (j - 1) = j" by (auto simp: length_growth_rate)
      with f have "\<not> fl_less (?rest ! k) (?rest ! (j - 1))" by blast
      moreover have "?rest ! (j - 1) = growth_rate df ! j"
        using that nth_rest [of "j - 1"] by simp
      ultimately show ?thesis using v by simp
    qed
    have 3: "fl_less (growth_rate df ! j) (growth_rate df ! Suc k)"
      if "1 \<le> j \<and> j < Suc k \<and> growth_rate df ! j \<noteq> NaN" for j
    proof -
      from that kl have lt: "j - 1 < k" and eq: "?rest ! (j - 1) = growth_rate df ! j"
        using nth_rest [of "j - 1"] by auto
      with f that have "fl_less (?rest ! (j - 1)) (?rest ! k)" by auto
      then show ?thesis using eq v by simp
    qed
    have 4: "?after = [Print_max_growth (growth_rate df ! Suc k) (Year (df ! Suc k)), Print_table df]"
      using k kl nan_max_at [OF k] v by simp
    from kl 1 2 3 4 show ?thesis by (intro exI [of _ "Suc k"]) auto
  qed
  show "\<exists>kmax kmin after.
        kmax < length df \<and> kmin < length df
        \<and> (\<forall>j<length df. GDP (df ! j) \<le> GDP (df ! kmax))
        \<and> (\<forall>j<kmax. GDP (df ! j) < GDP (df ! kmax))
        \<and> (\<forall>j<length df. GDP (df ! kmin) \<le> GDP (df ! j))
        \<and> (\<forall>j<kmin. GDP (df ! kmin) < GDP (df ! j))
        \<and> effects (snd (print_summary w)) =
            effects w @ [Print_header,
                         Print_period (year_min (map Year df)) (year_max (map Year df)),
                         Print_mean_gdp (series_mean (map GDP df)),
                         Print_max_gdp (Fin (GDP (df ! kmax))) (Year (df ! kmax)),
                         Print_min_gdp (Fin (GDP (df ! kmin))) (Year (df ! kmin)),
                         Print_mean_growth (nan_mean (drop 1 (growth_rate df)))] @ after
        \<and> (fst (print_summary w) = Inr () \<longleftrightarrow>
             (\<exists>j. 1 \<le> j \<and> j < length df \<and> growth_rate df ! j \<noteq> NaN))
        \<and> (fst (print_summary w) = Inr () \<longrightarrow>
             (\<exists>kg. 1 \<le> kg \<and> kg < length df \<and> growth_rate df ! kg \<noteq> NaN
                \<and> (\<forall>j. 1 \<le> j \<and> j < length df \<longrightarrow>
                      \<not> fl_less (growth_rate df ! kg) (growth_rate df ! j))
                \<and> (\<forall>j. 1 \<le> j \<and> j < kg \<and> growth_rate df ! j \<noteq> NaN \<longrightarrow>
                      fl_less (growth_rate df ! j) (growth_rate df ! kg))
                \<and> after = [Print_max_growth (growth_rate df ! kg) (Year (df ! kg)),
                            Print_table df]))"
    apply (rule exI [of _ kmax], rule exI [of _ kmin], rule exI [of _ ?after])
    using kmax(2-4) kmin(2-4) eff ok_iff growth by blast
qed

theorem summary_periods_earliest_witness:
  "fst (print_summary
     \<lparr>model = \<lparr>data = Some
        [\<lparr>Year = 2015, Consumption = 60, Investment = 20, Government_Spending = 15,
           Exports = 10, Imports = 5, GDP = 100, Net_Exports = 5\<rparr>,
         \<lparr>Year = 2016, Consumption = 66, Investment = 22, Government_Spending = 16,
           Exports = 12, Imports = 6, GDP = 110, Net_Exports = 6\<rparr>,
         \<lparr>Year = 2017, Consumption = 72, Investment = 25, Government_Spending = 17,
           Exports = 14, Imports = 7, GDP = 121, Net_Exports = 7\<rparr>,
         \<lparr>Year = 2018, Consumption = 70, Investment = 26, Government_Spending = 18,
           Exports = 15, Imports = 8, GDP = 121, Net_Exports = 7\<rparr>,
         \<lparr>Year = 2019, Consumption = 61, Investment = 19, Government_Spending = 15,
           Exports = 11, Imports = 6, GDP = 100, Net_Exports = 5\<rparr>],
        gdp_values = None\<rparr>, rng = (), effects = []\<rparr>) = Inr ()
   \<and> take 3 (drop 3 (effects (snd (print_summary
     \<lparr>model = \<lparr>data = Some
        [\<lparr>Year = 2015, Consumption = 60, Investment = 20, Government_Spending = 15,
           Exports = 10, Imports = 5, GDP = 100, Net_Exports = 5\<rparr>,
         \<lparr>Year = 2016, Consumption = 66, Investment = 22, Government_Spending = 16,
           Exports = 12, Imports = 6, GDP = 110, Net_Exports = 6\<rparr>,
         \<lparr>Year = 2017, Consumption = 72, Investment = 25, Government_Spending = 17,
           Exports = 14, Imports = 7, GDP = 121, Net_Exports = 7\<rparr>,
         \<lparr>Year = 2018, Consumption = 70, Investment = 26, Government_Spending = 18,
           Exports = 15, Imports = 8, GDP = 121, Net_Exports = 7\<rparr>,
         \<lparr>Year = 2019, Consumption = 61, Investment = 19, Government_Spending = 15,
           Exports = 11, Imports = 6, GDP = 100, Net_Exports = 5\<rparr>],
        gdp_values = None\<rparr>, rng = (), effects = []\<rparr>))))
     = [Print_max_gdp (Fin 121) 2017, Print_min_gdp (Fin 100) 2015,
        Print_mean_growth (Fin (186099158155807 / 281474976710656))]
   \<and> effects (snd (print_summary
     \<lparr>model = \<lparr>data = Some
        [\<lparr>Year = 2015, Consumption = 60, Investment = 20, Government_Spending = 15,
           Exports = 10, Imports = 5, GDP = 100, Net_Exports = 5\<rparr>,
         \<lparr>Year = 2016, Consumption = 66, Investment = 22, Government_Spending = 16,
           Exports = 12, Imports = 6, GDP = 110, Net_Exports = 6\<rparr>,
         \<lparr>Year = 2017, Consumption = 72, Investment = 25, Government_Spending = 17,
           Exports = 14, Imports = 7, GDP = 121, Net_Exports = 7\<rparr>,
         \<lparr>Year = 2018, Consumption = 70, Investment = 26, Government_Spending = 18,
           Exports = 15, Imports = 8, GDP = 121, Net_Exports = 7\<rparr>,
         \<lparr>Year = 2019, Consumption = 61, Investment = 19, Government_Spending = 15,
           Exports = 11, Imports = 6, GDP = 100, Net_Exports = 5\<rparr>],
        gdp_values = None\<rparr>, rng = (), effects = []\<rparr>)) ! 6
     = Print_max_growth (Fin (5629499534213125 / 562949953421312)) 2016"
proof -
  let ?df = "[\<lparr>Year = 2015, Consumption = 60, Investment = 20, Government_Spending = 15,
           Exports = 10, Imports = 5, GDP = 100, Net_Exports = 5\<rparr>,
         \<lparr>Year = 2016, Consumption = 66, Investment = 22, Government_Spending = 16,
           Exports = 12, Imports = 6, GDP = 110, Net_Exports = 6\<rparr>,
         \<lparr>Year = 2017, Consumption = 72, Investment = 25, Government_Spending = 17,
           Exports = 14, Imports = 7, GDP = 121, Net_Exports = 7\<rparr>,
         \<lparr>Year = 2018, Consumption = 70, Investment = 26, Government_Spending = 18,
           Exports = 15, Imports = 8, GDP = 121, Net_Exports = 7\<rparr>,
         \<lparr>Year = 2019, Consumption = 61, Investment = 19, Government_Spending = 15,
           Exports = 11, Imports = 6, GDP = 100, Net_Exports = 5\<rparr>]"
  let ?w = "\<lparr>model = \<lparr>data = Some ?df, gdp_values = None\<rparr>, rng = (), effects = []\<rparr>"
  have hyp: "data (model ?w) = Some ?df \<and> ?df \<noteq> []" by simp
  have g: "growth_rate ?df =
      [NaN, Fin (5629499534213125 / 562949953421312), Fin (5629499534213125 / 562949953421312),
       Fin 0, Fin (- (4885102901589897 / 281474976710656))]"
    by (simp add: growth_rate_def pct_change_def minus_pyfloat_def
        double_def ilog2.simps pow2_def rne_def Let_def)
  have run: "print_summary ?w =
    (Inr (), emit [Print_header, Print_period (Fin 2015) (Fin 2019), Print_mean_gdp (Fin (552 / 5)),
        Print_max_gdp (Fin 121) 2017, Print_min_gdp (Fin 100) 2015,
        Print_mean_growth (Fin (186099158155807 / 281474976710656)),
        Print_max_growth (Fin (5629499534213125 / 562949953421312)) 2016,
        Print_table ?df] ?w)"
    by (simp add: print_summary_def Let_def emit_def idxmax_def idxmin_def year_min_def year_max_def
      series_mean_def series_max_def series_min_def nan_mean_def nan_max_def nan_idxmax_def g)
  from summary_periods_earliest [of ?w ?df] hyp
  have "fst (print_summary ?w) = Inr () \<longleftrightarrow>
             (\<exists>j. 1 \<le> j \<and> j < length ?df \<and> growth_rate ?df ! j \<noteq> NaN)"
    by blast
  moreover have "1 \<le> (1::nat) \<and> 1 < length ?df \<and> growth_rate ?df ! 1 \<noteq> NaN"
    by (simp add: g)
  ultimately have ok: "fst (print_summary ?w) = Inr ()" by blast
  show ?thesis using ok run by (simp add: emit_def)
qed

end
